theory Spec2Isabelle
  imports Main
begin

section \<open>JavaScript values and computations\<close>

text \<open>
  Mosa.ts is a facade over an injected reactivity backend. Every function the facade
  receives or returns is a JavaScript closure that may read and change the world (the
  backend's signals, the caller's variables) and may throw. A closure call is therefore a
  state transformer with errors as values: \<open>Inl\<close> is a thrown error, \<open>Inr\<close> the
  returned value with the world after the call. The world type \<open>'s\<close> is a parameter:
  the facade never looks inside it.
\<close>

text \<open>
  A JavaScript value as \<open>exists\<close> sees it: \<open>undefined\<close>, \<open>null\<close>, or any other
  value (\<open>Defined\<close>). An absent optional argument or property reads as \<open>undefined\<close>.
\<close>

datatype 'a nullable = Undefined | Null | Defined 'a

text \<open>
  The primitive values the specification of \<open>exists\<close> speaks about. \<open>exists\<close>
  compares its argument with \<open>undefined\<close> and \<open>null\<close> only and never looks at a
  payload, so a number is written as an integer.
\<close>

datatype primitive = Boolean bool | Number int | String string

text \<open>
  \<open>TypeError\<close> is what JavaScript throws when a missing (undefined) property is called
  as a function or when a property of \<open>undefined\<close> is read; \<open>Thrown\<close> is any error
  thrown by backend or caller code.
\<close>

datatype error = TypeError | Thrown string

type_synonym ('a, 's) js = "'s \<Rightarrow> error + 'a \<times> 's"

definition js_return :: "'a \<Rightarrow> ('a, 's) js" where
  "js_return a = (\<lambda>s. Inr (a, s))"

definition js_throw :: "error \<Rightarrow> ('a, 's) js" where
  "js_throw e = (\<lambda>s. Inl e)"

definition js_bind :: "('a, 's) js \<Rightarrow> ('a \<Rightarrow> ('b, 's) js) \<Rightarrow> ('b, 's) js" where
  "js_bind m f = (\<lambda>s. case m s of Inl e \<Rightarrow> Inl e | Inr (a, s') \<Rightarrow> f a s')"

text \<open>
  \<open>obj.f(x)\<close> where the property \<open>f\<close> may be missing: calling \<open>undefined\<close> throws
  a TypeError, at the moment of the call.
\<close>

definition call :: "('a \<Rightarrow> ('b, 's) js) option \<Rightarrow> 'a \<Rightarrow> ('b, 's) js" where
  "call f x = (case f of None \<Rightarrow> js_throw TypeError | Some g \<Rightarrow> g x)"

text \<open>
  \<open>f?.(x)\<close> as a statement: nothing happens when \<open>f\<close> is \<open>undefined\<close> or
  \<open>null\<close>; otherwise \<open>f(x)\<close> is called and its result dropped.
\<close>

definition optional_call :: "('a \<Rightarrow> ('b, 's) js) nullable \<Rightarrow> 'a \<Rightarrow> (unit, 's) js" where
  "optional_call f x =
     (case f of Defined g \<Rightarrow> js_bind (g x) (\<lambda>_. js_return ()) | _ \<Rightarrow> js_return ())"

section \<open>The data model of Mosa.ts\<close>

text \<open>\<open>ReadonlyProp\<close>: an object with a getter \<open>value\<close>; \<open>Prop\<close> adds the setter.\<close>

record ('v, 's) ReadonlyProp =
  get_value :: "('v, 's) js"

record ('v, 's) Prop = "('v, 's) ReadonlyProp" +
  set_value :: "'v \<Rightarrow> (unit, 's) js"

text \<open>
  The object \<open>useFormula\<close> returns: the accessor pair and the field \<open>_isSig\<close>
  (an Isabelle name cannot start with an underscore).
\<close>

record ('v, 's) Formula = "('v, 's) Prop" +
  isSig :: bool

text \<open>What \<open>createSignal\<close> and \<open>createComputed\<close> return: \<open>{get, set}\<close> and \<open>{get}\<close>.\<close>

record ('v, 's) signal =
  signal_get :: "('v, 's) js"
  signal_set :: "'v \<Rightarrow> (unit, 's) js"

record ('v, 's) computed =
  computed_get :: "('v, 's) js"

text \<open>The second argument of \<open>doWatch\<close>: \<open>Partial<{on: ReadonlyProp<any>[]}>\<close>.\<close>

record ('v, 's) watchOptions =
  on :: "('v, 's) ReadonlyProp list nullable"

text \<open>
  The argument object of \<open>createManualEffect\<close>, \<open>{on: ..., do: ...}\<close>. At run time the
  field \<open>on\<close> holds whatever value \<open>options.on\<close> has.
\<close>

record ('v, 's) manualEffectParams =
  params_on :: "('v, 's) ReadonlyProp list nullable"
  params_do :: "(unit, 's) js"

text \<open>
  The configuration object passed to \<open>initializeMosa\<close>: the six backend operations.
  \<open>None\<close> is an operation the object does not have.
\<close>

record ('v, 's) mosaConfig =
  createRoot :: "(('v, 's) js \<Rightarrow> ('v, 's) js) option"
  createSignal :: "('v \<Rightarrow> (('v, 's) signal, 's) js) option"
  createComputed :: "(('v, 's) js \<Rightarrow> (('v, 's) computed, 's) js) option"
  createAutoEffect :: "((unit, 's) js \<Rightarrow> (unit, 's) js) option"
  createManualEffect :: "(('v, 's) manualEffectParams \<Rightarrow> (unit, 's) js) option"
  onDispose :: "((unit, 's) js \<Rightarrow> (unit, 's) js) option"

text \<open>
  The object \<open>initializeMosa\<close> returns. Its members \<open>onDispose\<close> and \<open>exists\<close> carry
  the prefix \<open>api_\<close> here, the names being taken by the backend operation and by the
  function \<open>exists\<close>.
\<close>

record ('v, 's) mosaApi =
  useRoot :: "('v, 's) js \<Rightarrow> ('v, 's) js"
  useProp :: "'v \<Rightarrow> (('v, 's) Prop, 's) js"
  useFormula :: "('v, 's) js \<Rightarrow> ('v \<Rightarrow> ('v, 's) js) nullable \<Rightarrow> (('v, 's) Formula, 's) js"
  doNow :: "('v, 's) js \<Rightarrow> ('v, 's) js"
  doWatch :: "(unit, 's) js \<Rightarrow> ('v, 's) watchOptions nullable \<Rightarrow> (unit, 's) js"
  api_onDispose :: "(unit, 's) js \<Rightarrow> (unit, 's) js"
  api_exists :: "'v nullable \<Rightarrow> bool"

section \<open>The functions of Mosa.ts\<close>

text \<open>\<open>function exists(x) { return x !== undefined && x !== null; }\<close>\<close>

definition exists :: "'a nullable \<Rightarrow> bool" where
  "exists x = (x \<noteq> Undefined \<and> x \<noteq> Null)"

text \<open>\<open>options?.on\<close>: \<open>undefined\<close> when \<open>options\<close> is \<open>undefined\<close> or \<open>null\<close>.\<close>

definition optional_on ::
  "('v, 's) watchOptions nullable \<Rightarrow> ('v, 's) ReadonlyProp list nullable" where
  "optional_on options = (case options of Defined opts \<Rightarrow> on opts | _ \<Rightarrow> Undefined)"

text \<open>\<open>options.on\<close>: reading a property of \<open>undefined\<close> or \<open>null\<close> throws.\<close>

definition member_on ::
  "('v, 's) watchOptions nullable \<Rightarrow> (('v, 's) ReadonlyProp list nullable, 's) js" where
  "member_on options =
     (case options of Defined opts \<Rightarrow> js_return (on opts) | _ \<Rightarrow> js_throw TypeError)"

text \<open>
  \<open>initializeMosa\<close> returns an object literal of closures over \<open>mosaConfig\<close>; nothing
  is called while it is built. The members follow the source one by one.
\<close>

definition initializeMosa :: "('v, 's) mosaConfig \<Rightarrow> ('v, 's) mosaApi" where
  "initializeMosa mosaConfig =
     \<lparr> useRoot = (\<lambda>func. call (createRoot mosaConfig) func),
       useProp = (\<lambda>initValue.
         js_bind (call (createSignal mosaConfig) initValue) (\<lambda>sg.
           js_return \<lparr> get_value = signal_get sg,
                       set_value = (\<lambda>newValue. signal_set sg newValue) \<rparr>)),
       useFormula = (\<lambda>compute setter.
         js_bind (call (createComputed mosaConfig) compute) (\<lambda>c.
           js_return \<lparr> get_value = computed_get c,
                       set_value = (\<lambda>newValue. optional_call setter newValue),
                       isSig = True \<rparr>)),
       doNow = (\<lambda>func. func),
       doWatch = (\<lambda>func options.
         if exists (optional_on options)
         then js_bind (member_on options) (\<lambda>deps.
                call (createManualEffect mosaConfig) \<lparr> params_on = deps, params_do = func \<rparr>)
         else call (createAutoEffect mosaConfig) func),
       api_onDispose = (\<lambda>func. call (onDispose mosaConfig) func),
       api_exists = exists \<rparr>"

section \<open>What a caller observes\<close>

text \<open>The value a call returns or the error it throws, without the world.\<close>

definition result :: "error + 'a \<times> 's \<Rightarrow> error + 'a" where
  "result r = (case r of Inl e \<Rightarrow> Inl e | Inr (a, s) \<Rightarrow> Inr a)"

text \<open>\<open>pre\<close>, then \<open>body\<close> once, then \<open>post\<close>; an error ends the sequence.\<close>

definition around :: "(unit, 's) js \<Rightarrow> (unit, 's) js \<Rightarrow> (unit, 's) js \<Rightarrow> (unit, 's) js" where
  "around pre body post = js_bind pre (\<lambda>_. js_bind body (\<lambda>_. post))"

text \<open>
  How a call of the backend operation \<open>operation\<close> on \<open>x\<close> in the world \<open>s\<close> ends
  with the error \<open>e\<close>: the operation is missing and \<open>e\<close> is the TypeError of calling
  it, or the operation is there and throws \<open>e\<close> itself.
\<close>

definition fails_with :: "('a \<Rightarrow> ('b, 's) js) option \<Rightarrow> 'a \<Rightarrow> 's \<Rightarrow> error \<Rightarrow> bool" where
  "fails_with operation x s e =
     ((operation = None \<and> e = TypeError) \<or> (\<exists>g. operation = Some g \<and> g x s = Inl e))"

section \<open>The Configuration Contract\<close>

text \<open>
  The backend is not part of the repository: the facade takes it as the argument
  \<open>mosaConfig\<close>. What the specification requires of it (its section 6) is stated here as
  predicates on the operations, to be assumed where a property of the facade depends on
  the backend keeping its side.
\<close>


text \<open>
  \<open>createComputed\<close>: "\<open>get\<close> returns memoized/recomputed derived value". Whatever the
  memoization, a read in a world \<open>t\<close> delivers what \<open>compute\<close> evaluates to in \<open>t\<close>.
\<close>

definition computed_contract :: "('v, 's) computed \<Rightarrow> ('v, 's) js \<Rightarrow> bool" where
  "computed_contract c compute = (\<forall>t. result (computed_get c t) = result (compute t))"

text \<open>
  \<open>createAutoEffect\<close> and \<open>createManualEffect\<close>: "Runs immediately". Whether a call
  has run an effect function is read off the world: \<open>count\<close> is whatever counts the
  invocations of that function so far (for a function that leaves its name in the trace,
  the occurrences of the name). The call \<open>m\<close>, made in the world \<open>s\<close>, has invoked the
  function exactly once when it returns and the count has gone up by one. Nothing is said
  of what else the call does, such as keeping the function for later runs.
\<close>

definition invoked_once :: "('s \<Rightarrow> nat) \<Rightarrow> (unit, 's) js \<Rightarrow> 's \<Rightarrow> bool" where
  "invoked_once count m s =
     (case m s of Inl e \<Rightarrow> False | Inr (u, s') \<Rightarrow> count s' = Suc (count s))"

section \<open>A recording backend\<close>

text \<open>
  A small backend in the shape of the contract, on which the facade can be run on concrete
  inputs. Its world is the list of signal cells and a trace; every backend operation and
  every signal or computed access appends its event to the trace, so a call that leaves
  the trace alone has reached no backend operation. It keeps no subscriptions: re-running
  effects is the business of a real backend, and nothing below depends on it.
\<close>

datatype event =
    CalledCreateRoot
  | CalledCreateSignal
  | CalledCreateComputed
  | CalledCreateAutoEffect
  | CalledCreateManualEffect nat
  | CalledOnDispose
  | SignalGet nat
  | SignalSet nat
  | ComputedGet
  | Invoked string

record 'v world =
  cells :: "'v list"
  trace :: "event list"

definition record_event :: "event \<Rightarrow> (unit, 'v world) js" where
  "record_event ev = (\<lambda>w. Inr ((), w\<lparr>trace := trace w @ [ev]\<rparr>))"

definition read_cell :: "nat \<Rightarrow> ('v, 'v world) js" where
  "read_cell n =
     (\<lambda>w. if n < length (cells w)
          then Inr (cells w ! n, w\<lparr>trace := trace w @ [SignalGet n]\<rparr>)
          else Inl (Thrown ''no such signal''))"

definition write_cell :: "nat \<Rightarrow> 'v \<Rightarrow> (unit, 'v world) js" where
  "write_cell n x =
     (\<lambda>w. if n < length (cells w)
          then Inr ((), w\<lparr>cells := (cells w)[n := x], trace := trace w @ [SignalSet n]\<rparr>)
          else Inl (Thrown ''no such signal''))"

definition recording_createRoot :: "('v, 'v world) js \<Rightarrow> ('v, 'v world) js" where
  "recording_createRoot func = js_bind (record_event CalledCreateRoot) (\<lambda>_. func)"

definition recording_createSignal :: "'v \<Rightarrow> (('v, 'v world) signal, 'v world) js" where
  "recording_createSignal initValue =
     (\<lambda>w. Inr (\<lparr> signal_get = read_cell (length (cells w)),
                  signal_set = write_cell (length (cells w)) \<rparr>,
                w\<lparr>cells := cells w @ [initValue], trace := trace w @ [CalledCreateSignal]\<rparr>))"

definition recording_createComputed ::
  "('v, 'v world) js \<Rightarrow> (('v, 'v world) computed, 'v world) js" where
  "recording_createComputed compute =
     js_bind (record_event CalledCreateComputed) (\<lambda>_.
       js_return \<lparr> computed_get = js_bind (record_event ComputedGet) (\<lambda>_. compute) \<rparr>)"

definition recording_createAutoEffect :: "(unit, 'v world) js \<Rightarrow> (unit, 'v world) js" where
  "recording_createAutoEffect effect =
     around (record_event CalledCreateAutoEffect) effect (js_return ())"

definition recording_createManualEffect ::
  "('v, 'v world) manualEffectParams \<Rightarrow> (unit, 'v world) js" where
  "recording_createManualEffect params =
     (case params_on params of
        Defined deps \<Rightarrow>
          around (record_event (CalledCreateManualEffect (length deps))) (params_do params)
            (js_return ())
      | _ \<Rightarrow> js_throw TypeError)"

definition recording_onDispose :: "(unit, 'v world) js \<Rightarrow> (unit, 'v world) js" where
  "recording_onDispose func = record_event CalledOnDispose"

definition recordingBackend :: "('v, 'v world) mosaConfig" where
  "recordingBackend =
     \<lparr> createRoot = Some recording_createRoot,
       createSignal = Some recording_createSignal,
       createComputed = Some recording_createComputed,
       createAutoEffect = Some recording_createAutoEffect,
       createManualEffect = Some recording_createManualEffect,
       onDispose = Some recording_onDispose \<rparr>"

text \<open>A configuration object with none of the six operations.\<close>

definition emptyConfig :: "('v, 's) mosaConfig" where
  "emptyConfig =
     \<lparr> createRoot = None, createSignal = None, createComputed = None,
       createAutoEffect = None, createManualEffect = None, onDispose = None \<rparr>"

text \<open>The world before anything was created, and an effect function that leaves its name
  in the trace each time it is invoked.\<close>

definition world0 :: "int world" where
  "world0 = \<lparr> cells = [], trace = [] \<rparr>"

definition spy :: "string \<Rightarrow> (unit, int world) js" where
  "spy name = record_event (Invoked name)"

text \<open>
  The scenario of the specification: \<open>counter = useProp(0)\<close> has been created (it is the
  first cell), and \<open>doubled\<close> computes \<open>counter.value * 2\<close>.
\<close>

definition world1 :: "int world" where
  "world1 = \<lparr> cells = [0], trace = [CalledCreateSignal] \<rparr>"

definition doubled :: "(int, int world) js" where
  "doubled = js_bind (read_cell 0) (\<lambda>x. js_return (x * 2))"

text \<open>A setter that leaves its name in the trace and its argument in \<open>counter\<close>.\<close>

definition spy_setter :: "int \<Rightarrow> (int, int world) js" where
  "spy_setter x =
     js_bind (record_event (Invoked ''setter'')) (\<lambda>_.
       js_bind (write_cell 0 x) (\<lambda>_. js_return x))"

text \<open>How often the effect function \<open>name\<close> has been invoked, by the trace.\<close>

definition invocations :: "string \<Rightarrow> 'v world \<Rightarrow> nat" where
  "invocations name w = count_list (trace w) (Invoked name)"

text \<open>
  A backend whose \<open>createAutoEffect\<close> registers the effect and leaves its first run to a
  later time, as a backend does that queues effects until the enclosing root has run. It
  has the type the facade asks of \<open>createAutoEffect\<close>.
\<close>

definition deferring_createAutoEffect :: "(unit, 'v world) js \<Rightarrow> (unit, 'v world) js" where
  "deferring_createAutoEffect effect = record_event CalledCreateAutoEffect"

definition deferringBackend :: "('v, 'v world) mosaConfig" where
  "deferringBackend = recordingBackend\<lparr>createAutoEffect := Some deferring_createAutoEffect\<rparr>"




section \<open>Properties\<close>

subsection \<open>The members of the facade, one equation each\<close>

lemmas js_defs = js_bind_def js_return_def js_throw_def call_def optional_call_def around_def

lemmas recording_defs =
  recordingBackend_def record_event_def read_cell_def write_cell_def
  recording_createRoot_def recording_createSignal_def recording_createComputed_def
  recording_createAutoEffect_def recording_createManualEffect_def recording_onDispose_def
  spy_def world0_def world1_def doubled_def spy_setter_def

lemma js_bind_return [simp]: "js_bind (js_return a) f = f a"
  by (simp add: js_bind_def js_return_def)

lemma js_bind_throw [simp]: "js_bind (js_throw e) f = js_throw e"
  by (simp add: js_bind_def js_throw_def)

lemma useRoot_eq: "useRoot (initializeMosa cfg) func = call (createRoot cfg) func"
  by (simp add: initializeMosa_def)

lemma useProp_eq:
  "useProp (initializeMosa cfg) v =
     js_bind (call (createSignal cfg) v) (\<lambda>sg.
       js_return \<lparr> get_value = signal_get sg,
                   set_value = (\<lambda>newValue. signal_set sg newValue) \<rparr>)"
  by (simp add: initializeMosa_def)

lemma useFormula_eq:
  "useFormula (initializeMosa cfg) compute setter =
     js_bind (call (createComputed cfg) compute) (\<lambda>c.
       js_return \<lparr> get_value = computed_get c,
                   set_value = (\<lambda>newValue. optional_call setter newValue),
                   isSig = True \<rparr>)"
  by (simp add: initializeMosa_def)

lemma doNow_eq: "doNow (initializeMosa cfg) func = func"
  by (simp add: initializeMosa_def)

lemma doWatch_eq:
  "doWatch (initializeMosa cfg) func options =
     (if exists (optional_on options)
      then js_bind (member_on options) (\<lambda>deps.
             call (createManualEffect cfg) \<lparr> params_on = deps, params_do = func \<rparr>)
      else call (createAutoEffect cfg) func)"
  by (simp add: initializeMosa_def)

lemma onDispose_eq: "api_onDispose (initializeMosa cfg) func = call (onDispose cfg) func"
  by (simp add: initializeMosa_def)

text \<open>Where \<open>exists (options?.on)\<close> holds, \<open>options.on\<close> reads the same value and
  cannot throw.\<close>

lemma member_on_exists:
  "exists (optional_on options) \<Longrightarrow> member_on options = js_return (optional_on options)"
  by (cases options) (simp_all add: optional_on_def member_on_def exists_def)

lemma doWatch_cases:
  "doWatch (initializeMosa cfg) func options =
     (if exists (optional_on options)
      then call (createManualEffect cfg) \<lparr> params_on = optional_on options, params_do = func \<rparr>
      else call (createAutoEffect cfg) func)"
  by (simp add: doWatch_eq member_on_exists)

text \<open>What is known of the object once \<open>useFormula\<close> or \<open>useProp\<close> has returned it.\<close>

lemma useFormula_Inr:
  assumes "useFormula (initializeMosa cfg) compute setter s = Inr (f, s')"
  shows "\<exists>cc c. createComputed cfg = Some cc \<and> cc compute s = Inr (c, s') \<and>
           get_value f = computed_get c \<and> set_value f = optional_call setter \<and> isSig f"
  using assms
  by (auto simp add: useFormula_eq js_bind_def js_return_def js_throw_def call_def
      split: option.splits sum.splits)


lemma call_fails: "(call operation x s = Inl e) = fails_with operation x s e"
  by (cases operation) (auto simp add: call_def fails_with_def js_throw_def)

lemma bind_return_fails: "(js_bind m (\<lambda>a. js_return (g a)) s = Inl e) = (m s = Inl e)"
  by (auto simp add: js_bind_def js_return_def split: sum.splits)

subsection \<open>The recording backend on concrete inputs\<close>


lemma doubled_result:
  "result (doubled t) =
     (if 0 < length (cells t) then Inr (cells t ! 0 * 2) else Inl (Thrown ''no such signal''))"
  by (simp add: doubled_def js_bind_def js_return_def read_cell_def result_def)

lemma recording_computed_contract:
  "computed_contract \<lparr> computed_get = js_bind (record_event ComputedGet) (\<lambda>_. doubled) \<rparr> doubled"
  by (simp add: computed_contract_def doubled_def js_bind_def js_return_def read_cell_def
      record_event_def result_def)


lemma useFormula_recording:
  "useFormula (initializeMosa recordingBackend) doubled setter world1 =
     Inr (\<lparr> get_value = js_bind (record_event ComputedGet) (\<lambda>_. doubled),
            set_value = optional_call setter, isSig = True \<rparr>,
          \<lparr> cells = [0], trace = [CalledCreateSignal, CalledCreateComputed] \<rparr>)"
  by (simp add: useFormula_eq js_bind_def js_return_def call_def recordingBackend_def
      recording_createComputed_def record_event_def world1_def)

subsection \<open>doWatch\<close>

text \<open>
  C1, as the claim states it, fails: the facade does not run the effect function, the
  backend does. On the backend that defers the first run, \<open>doWatch(fn)\<close> returns with
  the registration alone in the trace: \<open>fn\<close> has been invoked no time at all.
\<close>

theorem doWatch_deferred_counterexample:
  "doWatch (initializeMosa deferringBackend) (spy ''fn'') Undefined world0 =
     Inr ((), \<lparr> cells = [], trace = [CalledCreateAutoEffect] \<rparr>) \<and>
   invocations ''fn'' \<lparr> cells = [] :: int list, trace = [CalledCreateAutoEffect] \<rparr> = 0 \<and>
   \<not> invoked_once (invocations ''fn'')
       (doWatch (initializeMosa deferringBackend) (spy ''fn'') Undefined) world0"
  by (simp add: doWatch_cases optional_on_def exists_def invoked_once_def invocations_def
      deferringBackend_def deferring_createAutoEffect_def js_defs recording_defs)

text \<open>
  C1, amended. With a backend that has both effect operations, \<open>doWatch(fn, options)\<close>
  is the call \<open>createManualEffect({on: options.on, do: fn})\<close>, with exactly the list
  \<open>options.on\<close> and \<open>fn\<close>, when \<open>options.on\<close> is neither \<open>undefined\<close> nor \<open>null\<close>,
  and is the call \<open>createAutoEffect(fn)\<close> otherwise: nothing is added before or after,
  and \<open>doWatch\<close> itself never calls \<open>fn\<close>. So \<open>fn\<close> is invoked exactly once within
  \<open>doWatch\<close> if and only if the selected backend operation, called in the same world,
  invokes it exactly once, however the invocations are counted.
\<close>

theorem doWatch_delegates_registration:
  assumes "createAutoEffect cfg = Some cae" and "createManualEffect cfg = Some cme"
  shows "doWatch (initializeMosa cfg) fn options =
           (case optional_on options of
              Defined deps \<Rightarrow> cme \<lparr> params_on = Defined deps, params_do = fn \<rparr>
            | Undefined \<Rightarrow> cae fn
            | Null \<Rightarrow> cae fn) \<and>
         invoked_once count (doWatch (initializeMosa cfg) fn options) s =
           (case optional_on options of
              Defined deps \<Rightarrow>
                invoked_once count (cme \<lparr> params_on = Defined deps, params_do = fn \<rparr>) s
            | Undefined \<Rightarrow> invoked_once count (cae fn) s
            | Null \<Rightarrow> invoked_once count (cae fn) s)"
  using assms
  by (cases "optional_on options") (simp_all add: doWatch_cases exists_def call_def)

text \<open>
  On the recording backend, whose effect operations run the body at once: with one listed
  value the trace is the manual registration and one invocation of \<open>fn\<close>; with no
  options, or with \<open>on: null\<close>, it is the automatic registration and one invocation.
\<close>

theorem doWatch_delegates_registration_witness:
  "doWatch (initializeMosa recordingBackend) (spy ''fn'')
       (Defined \<lparr> on = Defined [\<lparr> get_value = js_return 1 \<rparr>] \<rparr>) world0 =
     Inr ((), \<lparr> cells = [], trace = [CalledCreateManualEffect 1, Invoked ''fn''] \<rparr>) \<and>
   doWatch (initializeMosa recordingBackend) (spy ''fn'') Undefined world0 =
     Inr ((), \<lparr> cells = [], trace = [CalledCreateAutoEffect, Invoked ''fn''] \<rparr>) \<and>
   doWatch (initializeMosa recordingBackend) (spy ''fn'') (Defined \<lparr> on = Null \<rparr>) world0 =
     Inr ((), \<lparr> cells = [], trace = [CalledCreateAutoEffect, Invoked ''fn''] \<rparr>) \<and>
   invoked_once (invocations ''fn'') (recording_createAutoEffect (spy ''fn'')) world0 \<and>
   invoked_once (invocations ''fn'')
     (doWatch (initializeMosa recordingBackend) (spy ''fn'') Undefined) world0"
proof -
  have a: "createAutoEffect (recordingBackend :: (int, int world) mosaConfig) =
      Some recording_createAutoEffect"
    and m: "createManualEffect (recordingBackend :: (int, int world) mosaConfig) =
      Some recording_createManualEffect"
    by (simp_all add: recordingBackend_def)
  note r = doWatch_delegates_registration [OF a m]
  have 1: "doWatch (initializeMosa recordingBackend) (spy ''fn'')
       (Defined \<lparr> on = Defined [\<lparr> get_value = js_return 1 \<rparr>] \<rparr>) world0 =
     Inr ((), \<lparr> cells = [], trace = [CalledCreateManualEffect 1, Invoked ''fn''] \<rparr>)"
    using r [of "spy ''fn''" "Defined \<lparr> on = Defined [\<lparr> get_value = js_return 1 \<rparr>] \<rparr>"
        "invocations ''fn''" world0]
    by (simp add: optional_on_def js_defs recording_defs)
  have 2: "doWatch (initializeMosa recordingBackend) (spy ''fn'') Undefined world0 =
     Inr ((), \<lparr> cells = [], trace = [CalledCreateAutoEffect, Invoked ''fn''] \<rparr>)"
    using r [of "spy ''fn''" Undefined "invocations ''fn''" world0]
    by (simp add: optional_on_def js_defs recording_defs)
  have 3: "doWatch (initializeMosa recordingBackend) (spy ''fn'') (Defined \<lparr> on = Null \<rparr>) world0 =
     Inr ((), \<lparr> cells = [], trace = [CalledCreateAutoEffect, Invoked ''fn''] \<rparr>)"
    using r [of "spy ''fn''" "Defined \<lparr> on = Null \<rparr>" "invocations ''fn''" world0]
    by (simp add: optional_on_def js_defs recording_defs)
  have 4: "invoked_once (invocations ''fn'') (recording_createAutoEffect (spy ''fn'')) world0"
    by (simp add: invoked_once_def invocations_def js_defs recording_defs)
  from r [of "spy ''fn''" Undefined "invocations ''fn''" world0] 4
  have 5: "invoked_once (invocations ''fn'')
     (doWatch (initializeMosa recordingBackend) (spy ''fn'') Undefined) world0"
    by (simp add: optional_on_def)
  from 1 2 3 4 5 show ?thesis by blast
qed

text \<open>
  C2, as the claim states it, fails: \<open>doWatch(fn, {on: []})\<close> on the recording backend
  calls \<open>createManualEffect\<close> with a list of length 0, and the world it leaves is not the
  one \<open>createAutoEffect(fn)\<close> leaves.
\<close>

theorem doWatch_empty_on_counterexample:
  "doWatch (initializeMosa recordingBackend) (spy ''fn'') (Defined \<lparr> on = Defined [] \<rparr>) world0 =
     Inr ((), \<lparr> cells = [], trace = [CalledCreateManualEffect 0, Invoked ''fn''] \<rparr>) \<and>
   doWatch (initializeMosa recordingBackend) (spy ''fn'') (Defined \<lparr> on = Defined [] \<rparr>) world0 \<noteq>
     recording_createAutoEffect (spy ''fn'') world0"
  by (simp add: initializeMosa_def exists_def optional_on_def member_on_def js_defs recording_defs)

text \<open>
  C2, amended. \<open>doWatch\<close> selects manual dependency tracking exactly when the \<open>on\<close>
  option is present and not \<open>null\<close>, whatever the length of the list: for every backend,
  \<open>doWatch(fn, options)\<close> is the call of \<open>createManualEffect\<close> when
  \<open>exists(options?.on)\<close> and the call of \<open>createAutoEffect\<close> otherwise; the empty list
  exists, and \<open>doWatch(fn, {on: []})\<close> is the call
  \<open>createManualEffect({on: [], do: fn})\<close>, also on a backend that has no
  \<open>createAutoEffect\<close>.
\<close>

theorem doWatch_manual_iff_on_exists:
  "doWatch (initializeMosa cfg) fn options =
     (if exists (optional_on options)
      then call (createManualEffect cfg) \<lparr> params_on = optional_on options, params_do = fn \<rparr>
      else call (createAutoEffect cfg) fn) \<and>
   exists (optional_on (Defined \<lparr> on = Defined [] \<rparr>)) \<and>
   doWatch (initializeMosa cfg) fn (Defined \<lparr> on = Defined [] \<rparr>) =
     call (createManualEffect cfg) \<lparr> params_on = Defined [], params_do = fn \<rparr>"
  by (simp add: doWatch_cases) (simp add: optional_on_def exists_def)

subsection \<open>useFormula\<close>

text \<open>
  C3. For a formula \<open>f\<close> that \<open>useFormula(compute)\<close> returned, without a setter, and every
  value \<open>x\<close>, the assignment \<open>f.value = x\<close> in any world \<open>t\<close> returns without an error
  and leaves \<open>t\<close> as it is, for every backend: no backend operation has run, since the
  recording backend would show it in its trace. A read after the write is the read
  without the write.
\<close>

theorem formula_write_without_setter:
  assumes "useFormula (initializeMosa cfg) compute Undefined s = Inr (f, s')"
  shows "set_value f x t = Inr ((), t) \<and>
         js_bind (set_value f x) (\<lambda>_. get_value f) t = get_value f t"
proof -
  from useFormula_Inr [OF assms] have "set_value f x t = Inr ((), t)"
    by (auto simp add: optional_call_def js_return_def)
  then show ?thesis
    by (simp add: js_bind_def)
qed

theorem formula_write_without_setter_witness:
  "\<exists>f w. useFormula (initializeMosa recordingBackend) doubled Undefined world1 = Inr (f, w) \<and>
      set_value f 5 w = Inr ((), w) \<and>
      trace w = [CalledCreateSignal, CalledCreateComputed] \<and>
      js_bind (set_value f 5) (\<lambda>_. get_value f) w = get_value f w"
  using formula_write_without_setter [OF useFormula_recording [of Undefined], of 5
      "\<lparr> cells = [0], trace = [CalledCreateSignal, CalledCreateComputed] \<rparr>"]
    useFormula_recording [of Undefined]
  by simp

text \<open>
  C4. For a formula \<open>f\<close> that \<open>useFormula(compute, s)\<close> returned, and every value \<open>x\<close>,
  the assignment \<open>f.value = x\<close> in any world \<open>t\<close> is the one call \<open>s(x)\<close> in \<open>t\<close>: it
  throws exactly what \<open>s(x)\<close> throws, and otherwise leaves the world \<open>s(x)\<close> leaves,
  the result of \<open>s\<close> dropped. Nothing of the backend takes part.
\<close>

theorem formula_write_with_setter:
  assumes "useFormula (initializeMosa cfg) compute (Defined setter) s = Inr (f, s')"
  shows "set_value f x t =
           (case setter x t of Inl e \<Rightarrow> Inl e | Inr (r, t') \<Rightarrow> Inr ((), t'))"
proof -
  from useFormula_Inr [OF assms] show ?thesis
    by (auto simp add: optional_call_def js_bind_def js_return_def split: sum.splits)
qed

text \<open>On the recording backend the write leaves one \<open>Invoked ''setter''\<close> and the setter's
  own write of \<open>counter\<close> in the trace, and no \<open>ComputedGet\<close>.\<close>

theorem formula_write_with_setter_witness:
  "\<exists>f w. useFormula (initializeMosa recordingBackend) doubled (Defined spy_setter) world1 =
        Inr (f, w) \<and>
      set_value f 5 w =
        Inr ((), \<lparr> cells = [5],
                  trace = [CalledCreateSignal, CalledCreateComputed, Invoked ''setter'',
                           SignalSet 0] \<rparr>)"
  using formula_write_with_setter [OF useFormula_recording [of "Defined spy_setter"], of 5
      "\<lparr> cells = [0], trace = [CalledCreateSignal, CalledCreateComputed] \<rparr>"]
    useFormula_recording [of "Defined spy_setter"]
  by (simp add: spy_setter_def js_bind_def js_return_def record_event_def write_cell_def)

text \<open>
  C6. For a pure derivation \<open>f = useFormula(compute)\<close>, the getter of \<open>f.value\<close> is the
  \<open>get\<close> of the object the backend's \<open>createComputed(compute)\<close> returned; where that
  object keeps the contract of \<open>createComputed\<close>, a read of \<open>f.value\<close> in any world
  \<open>t\<close> delivers what \<open>compute\<close> evaluates to in \<open>t\<close>.
\<close>

theorem useFormula_read:
  assumes "createComputed cfg = Some cc"
    and "useFormula (initializeMosa cfg) compute Undefined s = Inr (f, s')"
  shows "\<exists>c. cc compute s = Inr (c, s') \<and> get_value f = computed_get c \<and>
           (computed_contract c compute \<longrightarrow>
              (\<forall>t. result (get_value f t) = result (compute t)))"
proof -
  from useFormula_Inr [OF assms(2)] assms(1) obtain c where
    c: "cc compute s = Inr (c, s')" and f: "get_value f = computed_get c"
    by auto
  then show ?thesis
    by (auto simp add: computed_contract_def)
qed

text \<open>The scenario of the specification: \<open>doubled.value\<close> is 0 while \<open>counter\<close> is 0, and
  10 once \<open>counter\<close> is 5.\<close>

theorem useFormula_read_witness:
  "\<exists>f w. useFormula (initializeMosa recordingBackend) doubled Undefined world1 = Inr (f, w) \<and>
      computed_contract \<lparr> computed_get = get_value f \<rparr> doubled \<and>
      result (get_value f w) = Inr 0 \<and>
      result (get_value f (w\<lparr>cells := [5]\<rparr>)) = Inr 10"
proof -
  let ?c = "\<lparr> computed_get = js_bind (record_event ComputedGet) (\<lambda>_. doubled) \<rparr>"
  let ?w = "\<lparr> cells = [0 :: int], trace = [CalledCreateSignal, CalledCreateComputed] \<rparr>"
  have cc: "createComputed (recordingBackend :: (int, int world) mosaConfig) =
      Some recording_createComputed"
    by (simp add: recordingBackend_def)
  have made: "recording_createComputed doubled world1 = Inr (?c, ?w)"
    by (simp add: recording_createComputed_def js_bind_def js_return_def record_event_def
        world1_def)
  from useFormula_read [OF cc useFormula_recording [of Undefined]] made
    recording_computed_contract
  have r: "\<forall>t. result (js_bind (record_event ComputedGet) (\<lambda>_. doubled) t) = result (doubled t)"
    by simp
  have "result (js_bind (record_event ComputedGet) (\<lambda>_. doubled) ?w) = Inr 0"
    "result (js_bind (record_event ComputedGet) (\<lambda>_. doubled) (?w\<lparr>cells := [5]\<rparr>)) = Inr 10"
    by (simp_all add: r doubled_result)
  with useFormula_recording [of Undefined] recording_computed_contract show ?thesis
    by simp
qed

text \<open>
  C10. Whatever the compute function and the setter (given or not), the object
  \<open>useFormula\<close> returns has the field \<open>_isSig\<close> set to \<open>true\<close>.
\<close>

theorem useFormula_isSig:
  assumes "useFormula (initializeMosa cfg) compute setter s = Inr (f, s')"
  shows "isSig f = True"
  using useFormula_Inr [OF assms] by auto

theorem useFormula_isSig_witness:
  "\<exists>f w. useFormula (initializeMosa recordingBackend) doubled (Defined spy_setter) world1 =
        Inr (f, w) \<and>
      isSig f = True"
  using useFormula_isSig [OF useFormula_recording [of "Defined spy_setter"]]
    useFormula_recording [of "Defined spy_setter"]
  by simp

subsection \<open>useProp\<close>




subsection \<open>exists and doNow\<close>

text \<open>
  C7. \<open>exists\<close> is a function from values to truth values, with no world and no error:
  it is false exactly on \<open>undefined\<close> and \<open>null\<close>, and true on every other value, among
  them \<open>0\<close>, the empty string and \<open>false\<close>. The member \<open>exists\<close> of the facade is this
  function.
\<close>

theorem exists_total:
  "(\<not> exists x) = (x = Undefined \<or> x = Null) \<and> exists (Defined y) \<and>
   exists (Defined (Number 0)) \<and> exists (Defined (String [])) \<and>
   exists (Defined (Boolean False)) \<and> api_exists (initializeMosa cfg) x = exists x"
  by (cases x) (simp_all add: exists_def initializeMosa_def)

text \<open>
  C9. \<open>doNow(f)\<close> is the call \<open>f()\<close> and nothing else, for every backend, also one with
  no operation at all: the same result or error, the same world after. In particular
  \<open>doNow(() => 42)\<close> returns 42 and leaves the world as it was.
\<close>

theorem doNow_returns_result:
  "doNow (initializeMosa cfg) f = f \<and>
   doNow (initializeMosa emptyConfig) f s = f s \<and>
   doNow (initializeMosa cfg') (js_return (42 :: int)) s' = Inr (42, s')"
  by (simp add: doNow_eq js_return_def)

subsection \<open>initializeMosa\<close>

text \<open>
  C8. \<open>initializeMosa\<close> builds the facade from any configuration object, also one with
  operations missing, without a world to run in: no backend operation is called. A member
  of the facade ends with an error \<open>e\<close> exactly when the one backend operation it
  delegates to is missing (and \<open>e\<close> is the TypeError of calling it) or is there and
  throws \<open>e\<close> itself; for \<open>doWatch\<close> that operation is the one the \<open>on\<close> option
  selects. \<open>doNow\<close> fails only as its argument does, and on the configuration with no
  operation at all \<open>doNow\<close> and \<open>exists\<close> work as ever.
\<close>

theorem facade_fails_only_when_invoked:
  "(useRoot (initializeMosa cfg) func s = Inl e) = fails_with (createRoot cfg) func s e \<and>
   (useProp (initializeMosa cfg) v s = Inl e) = fails_with (createSignal cfg) v s e \<and>
   (useFormula (initializeMosa cfg) compute setter s = Inl e) =
      fails_with (createComputed cfg) compute s e \<and>
   (doWatch (initializeMosa cfg) fn options s = Inl e) =
      (if exists (optional_on options)
       then fails_with (createManualEffect cfg)
              \<lparr> params_on = optional_on options, params_do = fn \<rparr> s e
       else fails_with (createAutoEffect cfg) fn s e) \<and>
   (api_onDispose (initializeMosa cfg) fn s = Inl e) = fails_with (onDispose cfg) fn s e \<and>
   (doNow (initializeMosa cfg) func s = Inl e) = (func s = Inl e) \<and>
   doNow (initializeMosa emptyConfig) func = func \<and>
   api_exists (initializeMosa emptyConfig) x = exists x"
proof -
  have 1: "(useRoot (initializeMosa cfg) func s = Inl e) = fails_with (createRoot cfg) func s e"
    by (simp add: useRoot_eq call_fails)
  have 2: "(useProp (initializeMosa cfg) v s = Inl e) = fails_with (createSignal cfg) v s e"
    by (simp add: useProp_eq bind_return_fails call_fails)
  have 3: "(useFormula (initializeMosa cfg) compute setter s = Inl e) =
      fails_with (createComputed cfg) compute s e"
    by (simp add: useFormula_eq bind_return_fails call_fails)
  have 4: "(doWatch (initializeMosa cfg) fn options s = Inl e) =
      (if exists (optional_on options)
       then fails_with (createManualEffect cfg)
              \<lparr> params_on = optional_on options, params_do = fn \<rparr> s e
       else fails_with (createAutoEffect cfg) fn s e)"
    by (simp add: doWatch_cases call_fails)
  have 5: "(api_onDispose (initializeMosa cfg) fn s = Inl e) = fails_with (onDispose cfg) fn s e"
    by (simp add: onDispose_eq call_fails)
  have 6: "(doNow (initializeMosa cfg) func s = Inl e) = (func s = Inl e)"
    "doNow (initializeMosa emptyConfig) func = func"
    "api_exists (initializeMosa emptyConfig) x = exists x"
    by (simp_all add: initializeMosa_def)
  from 1 2 3 4 5 6 show ?thesis by blast
qed

text \<open>
  With no operation at all, \<open>useProp\<close> and \<open>useRoot\<close> throw the TypeError when called and
  \<open>doNow\<close> works; with only \<open>createManualEffect\<close> missing, \<open>doWatch(fn)\<close> works and
  \<open>doWatch(fn, {on: []})\<close> throws the TypeError.
\<close>

theorem facade_fails_only_when_invoked_witness:
  "useProp (initializeMosa emptyConfig) (0 :: int) world0 = Inl TypeError \<and>
   useRoot (initializeMosa emptyConfig) (js_return (0 :: int)) world0 = Inl TypeError \<and>
   doNow (initializeMosa emptyConfig) (js_return (42 :: int)) world0 = Inr (42, world0) \<and>
   doWatch (initializeMosa (recordingBackend\<lparr>createManualEffect := None\<rparr>)) (spy ''fn'')
       Undefined world0 =
     Inr ((), \<lparr> cells = [], trace = [CalledCreateAutoEffect, Invoked ''fn''] \<rparr>) \<and>
   doWatch (initializeMosa (recordingBackend\<lparr>createManualEffect := None\<rparr>)) (spy ''fn'')
       (Defined \<lparr> on = Defined [] \<rparr>) world0 = Inl TypeError"
proof -
  let ?partial = "recordingBackend\<lparr>createManualEffect := None\<rparr> :: (int, int world) mosaConfig"
  let ?empty = "[] :: (int, int world) ReadonlyProp list"
  note e = facade_fails_only_when_invoked
      [where cfg = "emptyConfig :: (int, int world) mosaConfig" and func = "js_return 0"
         and s = world0 and e = TypeError
         and v = 0 and compute = "js_return 0" and setter = Undefined and fn = "spy ''fn''"
         and options = Undefined and x = Undefined]
  note p = facade_fails_only_when_invoked
      [where cfg = ?partial and s = world0
         and e = TypeError and fn = "spy ''fn''" and options = "Defined \<lparr> on = Defined ?empty \<rparr>"
         and func = "js_return 0" and v = 0 and compute = "js_return 0" and setter = Undefined
         and x = Undefined]
  have missing: "fails_with (createSignal emptyConfig) (0 :: int) world0 TypeError"
    "fails_with (createRoot emptyConfig) (js_return (0 :: int)) world0 TypeError"
    "fails_with (createManualEffect ?partial)
       \<lparr> params_on = Defined ?empty, params_do = spy ''fn'' \<rparr> world0 TypeError"
    by (simp_all add: fails_with_def emptyConfig_def)
  have on: "optional_on (Defined \<lparr> on = Defined ?empty \<rparr>) = Defined ?empty"
    "exists (Defined ?empty)"
    by (simp_all add: optional_on_def exists_def)
  from e missing have 1: "useProp (initializeMosa emptyConfig) (0 :: int) world0 = Inl TypeError"
    "useRoot (initializeMosa emptyConfig) (js_return (0 :: int)) world0 = Inl TypeError"
    by blast+
  have 2: "doNow (initializeMosa emptyConfig) (js_return (42 :: int)) world0 = Inr (42, world0)"
    by (simp add: doNow_eq js_return_def)
  have 3: "doWatch (initializeMosa ?partial) (spy ''fn'') Undefined world0 =
     Inr ((), \<lparr> cells = [], trace = [CalledCreateAutoEffect, Invoked ''fn''] \<rparr>)"
    by (simp add: doWatch_cases optional_on_def exists_def js_defs recording_defs)
  from p have "(doWatch (initializeMosa ?partial) (spy ''fn'')
        (Defined \<lparr> on = Defined ?empty \<rparr>) world0 = Inl TypeError) =
      fails_with (createManualEffect ?partial)
        \<lparr> params_on = Defined ?empty, params_do = spy ''fn'' \<rparr> world0 TypeError"
    by (simp only: on if_True) blast
  with missing have 4: "doWatch (initializeMosa ?partial) (spy ''fn'')
       (Defined \<lparr> on = Defined ?empty \<rparr>) world0 = Inl TypeError"
    by blast
  from 1 2 3 4 show ?thesis by blast
qed

end
